theory Spec2Isabelle
  imports Complex_Main "HOL-Library.Word" "HOL-Library.AList"
begin

unbundle bit_operations_syntax

section \<open>Bucketing (lib/hash.ts of the worker, and its copy in the SDK)\<close>

text \<open>
  A JavaScript string is a sequence of UTF-16 code units, and \<open>charCodeAt\<close> reads one
  of them: a string is modelled as a list of 16-bit words. \<open>code_units\<close> writes a
  Latin-1 literal as such a list. The variant count, always the length of a variant
  list, is an integer.

  JavaScript numbers are modelled as exact reals, where the code rounds every quotient
  and product to binary64. The hash value \<open>k / 10000\<close> and the threshold
  \<open>trafficPercent / 100\<close> are each one rounded quotient, and rounding keeps the order
  of the exact values, so the comparisons of \<open>bucket\<close> agree with the model at whole
  percentages, and so does all of experiment mode at 0 and at 100 percent. The rescaled
  index \<open>floor (n / (trafficPercent / 100) * variantCount)\<close> goes through three rounded
  operations and can land on the other side of a whole number: the model can give the
  neighbouring variant there, and nothing below states the value of a rescaled index
  away from those two boundaries.
\<close>

type_synonym js_string = "16 word list"

definition code_units :: "string \<Rightarrow> js_string" where
  "code_units s = map of_char s"

definition FNV_OFFSET :: "32 word" where
  "FNV_OFFSET = 0x811c9dc5"

definition FNV_PRIME :: "32 word" where
  "FNV_PRIME = 0x01000193"

text \<open>
  The accumulator of \<open>fnv1a\<close> is a 32-bit integer: \<open>^=\<close> and \<open>Math.imul\<close> keep
  the low 32 bits, and \<open>>>> 0\<close> reads them as unsigned.
\<close>

fun fnv1a_loop :: "32 word \<Rightarrow> js_string \<Rightarrow> 32 word" where
  "fnv1a_loop hash [] = hash"
| "fnv1a_loop hash (c # cs) = fnv1a_loop ((hash XOR ucast c) * FNV_PRIME) cs"

definition fnv1a :: "js_string \<Rightarrow> real" where
  "fnv1a str = real (unat (fnv1a_loop FNV_OFFSET str) mod 10000) / 10000"

datatype exp_type = TExperiment | TFlag

definition bucket :: "js_string \<Rightarrow> js_string \<Rightarrow> int \<Rightarrow> real \<Rightarrow> exp_type \<Rightarrow> int" where
  "bucket visitorId experimentId variantCount trafficPercent type =
     (let n = fnv1a (visitorId @ experimentId) in
      if type = TFlag then (if n < trafficPercent / 100 then 1 else 0)
      else if n \<ge> trafficPercent / 100 then - 1
      else
        let scaled = n / (trafficPercent / 100) in
        min \<lfloor>scaled * real_of_int variantCount\<rfloor> (variantCount - 1))"

section \<open>Probability estimator (lib/stats.ts)\<close>

text \<open>
  \<open>Math.random\<close> is modelled as a source of draws: a function from the number of the
  call to the value drawn, with the number of calls made so far passed along and
  returned. \<open>sampleBeta\<close> makes two calls. Arithmetic is that of the reals, so the
  non-finite values of IEEE arithmetic are outside the model; nothing proved below
  depends on what the draws are.
\<close>

type_synonym rng = "nat \<Rightarrow> real"

definition sampleBeta :: "rng \<Rightarrow> nat \<Rightarrow> real \<Rightarrow> real \<Rightarrow> real \<times> nat" where
  "sampleBeta rnd pos alpha beta =
     (let mu = alpha / (alpha + beta);
          variance = (alpha * beta) / ((alpha + beta) ^ 2 * (alpha + beta + 1));
          u1 = rnd pos;
          u2 = rnd (pos + 1);
          z = sqrt (- 2 * ln u1) * cos (2 * pi * u2)
      in (max 0 (min 1 (mu + sqrt variance * z)), pos + 2))"

text \<open>
  The loop of \<open>bayesianProbability\<close>: \<open>i\<close> counts the iterations up to \<open>SAMPLES\<close>,
  \<open>wins\<close> the iterations where the treatment draw is above the control draw.
\<close>

definition SAMPLES :: nat where
  "SAMPLES = 10000"

function sample_loop ::
  "rng \<Rightarrow> real \<Rightarrow> real \<Rightarrow> real \<Rightarrow> real \<Rightarrow> nat \<Rightarrow> nat \<Rightarrow> nat \<Rightarrow> nat \<times> nat" where
  "sample_loop rnd cc ct tc tt i wins pos =
     (if i < SAMPLES then
        (let (a, pos1) = sampleBeta rnd pos (cc + 1) (ct - cc + 1);
             (b, pos2) = sampleBeta rnd pos1 (tc + 1) (tt - tc + 1)
         in sample_loop rnd cc ct tc tt (i + 1) (if b > a then wins + 1 else wins) pos2)
      else (wins, pos))"
  by pat_completeness auto
termination
  by (relation "measure (\<lambda>(rnd, cc, ct, tc, tt, i, wins, pos). SAMPLES - i)") auto

declare sample_loop.simps [simp del]

definition bayesianProbability ::
  "rng \<Rightarrow> nat \<Rightarrow> real \<Rightarrow> real \<Rightarrow> real \<Rightarrow> real \<Rightarrow> real \<times> nat" where
  "bayesianProbability rnd pos controlConversions controlTotal treatmentConversions treatmentTotal =
     (let cc = max 0 (min controlConversions controlTotal);
          ct = max 0 controlTotal;
          tc = max 0 (min treatmentConversions treatmentTotal);
          tt = max 0 treatmentTotal;
          (wins, pos') = sample_loop rnd cc ct tc tt 0 0 pos
      in (real wins / real SAMPLES, pos'))"

text \<open>
  \<open>multiVariantProbabilities\<close>: the callback of \<open>map\<close> runs on the variants in order,
  with the index; null is \<open>None\<close>.
\<close>

record VariantData =
  conversions :: real
  total :: real

fun mvp_map ::
  "rng \<Rightarrow> VariantData \<Rightarrow> nat \<Rightarrow> VariantData list \<Rightarrow> nat \<Rightarrow> real option list \<times> nat" where
  "mvp_map rnd control i [] pos = ([], pos)"
| "mvp_map rnd control i (v # vs) pos =
     (if i = 0 then
        (let (rest, pos') = mvp_map rnd control (i + 1) vs pos in (None # rest, pos'))
      else
        (let (p, pos1) = bayesianProbability rnd pos (conversions control) (total control)
                           (conversions v) (total v);
             (rest, pos2) = mvp_map rnd control (i + 1) vs pos1
         in (Some p # rest, pos2)))"

definition multiVariantProbabilities ::
  "rng \<Rightarrow> nat \<Rightarrow> VariantData list \<Rightarrow> real option list \<times> nat" where
  "multiVariantProbabilities rnd pos variants =
     (if length variants = 0 then ([], pos)
      else let control = variants ! 0 in mvp_map rnd control 0 variants pos)"

section \<open>Experiment records and the key-value store (types.ts)\<close>

text \<open>
  Optional fields of a record are options. The key-value store holds experiment
  records under the keys \<open>experiment:<id>\<close> and ramp counters, as decimal strings,
  under the keys \<open>autostop:<id>\<close>. The two prefixes never give the same key, so the
  store is modelled as two maps from the id: one to records, one to the integers the
  counter strings denote. The clock is a parameter \<open>now\<close>, the timestamp read at a
  decision.
\<close>

datatype exp_status = Active | Paused | Completed

record Experiment =
  exp_id :: string
  name :: string
  variants :: "string list"
  trafficPercent :: real
  status :: exp_status
  type :: "exp_type option"
  createdAt :: string
  updatedAt :: string
  winner :: "string option"
  completedAt :: "string option"
  minSamplesPerVariant :: "real option"
  autoStop :: "bool option"

record kv_store =
  experiments :: "string \<rightharpoonup> Experiment"
  counters :: "string \<rightharpoonup> int"

definition put_experiment :: "kv_store \<Rightarrow> string \<Rightarrow> Experiment \<Rightarrow> kv_store" where
  "put_experiment env k e = env\<lparr>experiments := (experiments env)(k \<mapsto> e)\<rparr>"

definition put_counter :: "kv_store \<Rightarrow> string \<Rightarrow> int \<Rightarrow> kv_store" where
  "put_counter env k n = env\<lparr>counters := (counters env)(k \<mapsto> n)\<rparr>"

section \<open>Results evaluation (routes/results.ts)\<close>

text \<open>
  Reading a property of a missing entry of \<open>stats\<close> throws a TypeError. Reading an
  array past its end gives undefined, which is not null and fails every comparison.
\<close>

datatype js_error = TypeError

datatype js_prob = Undefined | Null | Num real

definition index_prob :: "real option list \<Rightarrow> nat \<Rightarrow> js_prob" where
  "index_prob probabilities i =
     (if i < length probabilities
      then (case probabilities ! i of None \<Rightarrow> Null | Some p \<Rightarrow> Num p)
      else Undefined)"

fun js_gt :: "js_prob \<Rightarrow> real \<Rightarrow> bool" where
  "js_gt (Num p) x = (p > x)"
| "js_gt Null x = (0 > x)"
| "js_gt Undefined x = False"

fun js_lt :: "js_prob \<Rightarrow> real \<Rightarrow> bool" where
  "js_lt (Num p) x = (p < x)"
| "js_lt Null x = (0 < x)"
| "js_lt Undefined x = False"

text \<open>
  Variant keys are the strings \<open>String(variantIndex)\<close> written with each event; a key
  is modelled by the integer it denotes, \<open>Number(key)\<close>. The name of a variant is the
  entry of the experiment's variant list at that index, or \<open>variant <key>\<close> when there
  is none.
\<close>

record VariantStats =
  impressions :: real
  stat_conversions :: real
  totalRevenue :: real

fun digits_of_nat :: "nat \<Rightarrow> string" where
  "digits_of_nat n =
     (if n < 10 then [char_of (48 + n)]
      else digits_of_nat (n div 10) @ [char_of (48 + n mod 10)])"

declare digits_of_nat.simps [simp del]

definition String_of_int :: "int \<Rightarrow> string" where
  "String_of_int k =
     (if k < 0 then CHR ''-'' # digits_of_nat (nat (- k)) else digits_of_nat (nat k))"

definition variant_name :: "string list \<Rightarrow> int \<Rightarrow> string" where
  "variant_name expVariantNames key =
     (if 0 \<le> key \<and> nat key < length expVariantNames then expVariantNames ! nat key
      else ''variant '' @ String_of_int key)"

definition RAMP_SCHEDULE :: "real list" where
  "RAMP_SCHEDULE = [10, 25, 50, 75, 100]"

definition FLAG_RAMP_THRESHOLD :: real where
  "FLAG_RAMP_THRESHOLD = 95 / 100"

definition FLAG_CONSECUTIVE_REQUIRED :: int where
  "FLAG_CONSECUTIVE_REQUIRED = 3"

text \<open>
  \<open>evaluateExperimentStop\<close>: the sample-size test (\<open>every\<close> stops at the first variant
  that fails it), then the loop over the variants from index 1.
\<close>

fun every_min_samples :: "(int \<rightharpoonup> VariantStats) \<Rightarrow> real \<Rightarrow> int list \<Rightarrow> js_error + bool" where
  "every_min_samples stats minSamples [] = Inr True"
| "every_min_samples stats minSamples (v # vs) =
     (case stats v of
        None \<Rightarrow> Inl TypeError
      | Some s \<Rightarrow>
          if impressions s \<ge> minSamples then every_min_samples stats minSamples vs
          else Inr False)"

function stop_loop ::
  "string \<Rightarrow> kv_store \<Rightarrow> Experiment \<Rightarrow> int list \<Rightarrow> real option list \<Rightarrow> string list \<Rightarrow> nat
   \<Rightarrow> Experiment option \<times> kv_store" where
  "stop_loop now env experiment variantKeys probabilities expVariantNames i =
     (if i < length variantKeys then
        (let prob = index_prob probabilities i in
         if prob = Null
         then stop_loop now env experiment variantKeys probabilities expVariantNames (i + 1)
         else
           (let winner =
                  (if js_gt prob (99 / 100)
                   then Some (variant_name expVariantNames (variantKeys ! i))
                   else if js_lt prob (1 / 100)
                   then Some (variant_name expVariantNames (variantKeys ! 0))
                   else None)
            in case winner of
                 Some w \<Rightarrow>
                   (let updated = experiment\<lparr>status := Completed, winner := Some w,
                                     completedAt := Some now, updatedAt := now\<rparr>
                    in (Some updated, put_experiment env (exp_id experiment) updated))
               | None \<Rightarrow>
                   stop_loop now env experiment variantKeys probabilities expVariantNames (i + 1)))
      else (None, env))"
  by pat_completeness auto
termination
  by (relation "measure (\<lambda>(now, env, experiment, variantKeys, probabilities, expVariantNames, i).
                   length variantKeys - i)") auto

declare stop_loop.simps [simp del]

definition evaluateExperimentStop ::
  "string \<Rightarrow> kv_store \<Rightarrow> Experiment \<Rightarrow> int list \<Rightarrow> (int \<rightharpoonup> VariantStats) \<Rightarrow> real option list
   \<Rightarrow> string list \<Rightarrow> js_error + (Experiment option \<times> kv_store)" where
  "evaluateExperimentStop now env experiment variantKeys stats probabilities expVariantNames =
     (let minSamples = (case minSamplesPerVariant experiment of None \<Rightarrow> 100 | Some m \<Rightarrow> m) in
      case every_min_samples stats minSamples variantKeys of
        Inl err \<Rightarrow> Inl err
      | Inr allHaveMinSamples \<Rightarrow>
          if \<not> allHaveMinSamples then Inr (None, env)
          else Inr (stop_loop now env experiment variantKeys probabilities expVariantNames 1))"

definition evaluateFlagRamp ::
  "string \<Rightarrow> kv_store \<Rightarrow> Experiment \<Rightarrow> real option list \<Rightarrow> Experiment option \<times> kv_store" where
  "evaluateFlagRamp now env experiment probabilities =
     (let prob = index_prob probabilities 1 in
      if prob = Null then (None, env)
      else if js_gt prob FLAG_RAMP_THRESHOLD then
        (let raw = counters env (exp_id experiment);
             consecutive = (case raw of None \<Rightarrow> 1 | Some n \<Rightarrow> n + 1);
             env1 = put_counter env (exp_id experiment) consecutive
         in if consecutive \<ge> FLAG_CONSECUTIVE_REQUIRED then
              (let currentTraffic = trafficPercent experiment;
                   nextStep = List.find (\<lambda>step. step > currentTraffic) RAMP_SCHEDULE
               in case nextStep of
                    Some step \<Rightarrow>
                      (let updated = experiment\<lparr>trafficPercent := step, updatedAt := now\<rparr>;
                           env2 = put_experiment env1 (exp_id experiment) updated;
                           env3 = put_counter env2 (exp_id experiment) 0
                       in (Some updated, env3))
                  | None \<Rightarrow> (None, env1))
            else (None, env1))
      else (None, put_counter env (exp_id experiment) 0))"

text \<open>
  \<open>handleResults\<close>, from the point where both aggregation queries have answered: the
  per-variant totals (an association list, in the order the variants are first seen),
  the lookup of the record, the probabilities, and the evaluator that matches the
  record. Of the response body, the status, winner and completedAt are modelled.
\<close>

record AERow =
  variant :: int
  eventType :: string
  count :: real

record AERevenueRow =
  revenue_variant :: int
  total_revenue :: real

definition empty_stats :: VariantStats where
  "empty_stats = \<lparr>impressions = 0, stat_conversions = 0, totalRevenue = 0\<rparr>"

fun aggregate_rows :: "AERow list \<Rightarrow> (int \<times> VariantStats) list \<Rightarrow> (int \<times> VariantStats) list" where
  "aggregate_rows [] stats = stats"
| "aggregate_rows (row # rows) stats =
     (let s = (case map_of stats (variant row) of None \<Rightarrow> empty_stats | Some s \<Rightarrow> s);
          s' = (if eventType row = ''impression'' then s\<lparr>impressions := impressions s + count row\<rparr>
                else if eventType row = ''conversion''
                then s\<lparr>stat_conversions := stat_conversions s + count row\<rparr>
                else s)
      in aggregate_rows rows (AList.update (variant row) s' stats))"

fun aggregate_revenue ::
  "AERevenueRow list \<Rightarrow> (int \<times> VariantStats) list \<Rightarrow> (int \<times> VariantStats) list" where
  "aggregate_revenue [] stats = stats"
| "aggregate_revenue (row # rows) stats =
     (let s = (case map_of stats (revenue_variant row) of None \<Rightarrow> empty_stats | Some s \<Rightarrow> s);
          s' = s\<lparr>totalRevenue := totalRevenue s + total_revenue row\<rparr>
      in aggregate_revenue rows (AList.update (revenue_variant row) s' stats))"

record ResultsResponse =
  response_status :: "exp_status option"
  response_winner :: "string option"
  response_completedAt :: "string option"

definition response_of :: "Experiment option \<Rightarrow> ResultsResponse" where
  "response_of finalExp =
     (case finalExp of
        None \<Rightarrow> \<lparr>response_status = None, response_winner = None, response_completedAt = None\<rparr>
      | Some e \<Rightarrow> \<lparr>response_status = Some (status e), response_winner = winner e,
                   response_completedAt = completedAt e\<rparr>)"

definition handleResults ::
  "rng \<Rightarrow> nat \<Rightarrow> string \<Rightarrow> kv_store \<Rightarrow> string \<Rightarrow> AERow list \<Rightarrow> AERevenueRow list
   \<Rightarrow> js_error + (ResultsResponse \<times> kv_store \<times> nat)" where
  "handleResults rnd pos now env experimentId rows revenueRows =
     (let stats = aggregate_revenue revenueRows (aggregate_rows rows []);
          experiment = experiments env experimentId;
          expVariantNames = (case experiment of None \<Rightarrow> [] | Some e \<Rightarrow> variants e);
          sorted_stats = sort_key fst stats;
          variantKeys = map fst sorted_stats;
          variantDataForStats =
            map (\<lambda>(v, s). \<lparr>conversions = stat_conversions s, total = impressions s\<rparr>) sorted_stats;
          (probabilities, pos') = multiVariantProbabilities rnd pos variantDataForStats
      in case experiment of
           None \<Rightarrow> Inr (response_of None, env, pos')
         | Some e \<Rightarrow>
             if status e = Active then
               (let expType = (case type e of None \<Rightarrow> TExperiment | Some t \<Rightarrow> t) in
                if expType = TExperiment \<and> (case autoStop e of None \<Rightarrow> True | Some b \<Rightarrow> b) then
                  (case evaluateExperimentStop now env e variantKeys (map_of stats)
                          probabilities expVariantNames of
                     Inl err \<Rightarrow> Inl err
                   | Inr (updated, env') \<Rightarrow>
                       Inr (response_of (case updated of None \<Rightarrow> Some e | Some u \<Rightarrow> Some u),
                            env', pos'))
                else if expType = TFlag then
                  (let (updated, env') = evaluateFlagRamp now env e probabilities
                   in Inr (response_of (case updated of None \<Rightarrow> Some e | Some u \<Rightarrow> Some u),
                           env', pos'))
                else Inr (response_of (Some e), env, pos'))
             else Inr (response_of (Some e), env, pos'))"

section \<open>The rules as the specification states them\<close>



text \<open>
  Draw pair \<open>j\<close> of a call of \<open>bayesianProbability\<close> that starts at draw \<open>pos\<close> is a win
  when the treatment sample is above the control sample.
\<close>

definition draw_wins :: "rng \<Rightarrow> nat \<Rightarrow> real \<Rightarrow> real \<Rightarrow> real \<Rightarrow> real \<Rightarrow> nat \<Rightarrow> bool" where
  "draw_wins rnd pos cc ct tc tt j =
     (fst (sampleBeta rnd (pos + 4 * j + 2) (tc + 1) (tt - tc + 1))
        > fst (sampleBeta rnd (pos + 4 * j) (cc + 1) (ct - cc + 1)))"

text \<open>
  Auto-stop: a variant crosses a threshold when its probability is a number above 0.99
  or below 0.01; the decision for the first such variant, if any.
\<close>

definition crosses :: "real option list \<Rightarrow> nat \<Rightarrow> bool" where
  "crosses probabilities i =
     (case index_prob probabilities i of
        Num p \<Rightarrow> p > 99 / 100 \<or> p < 1 / 100
      | Null \<Rightarrow> False
      | Undefined \<Rightarrow> False)"

definition stop_decision ::
  "string \<Rightarrow> kv_store \<Rightarrow> Experiment \<Rightarrow> int list \<Rightarrow> real option list \<Rightarrow> string list
   \<Rightarrow> nat option \<Rightarrow> Experiment option \<times> kv_store" where
  "stop_decision now env experiment variantKeys probabilities expVariantNames first =
     (case first of
        None \<Rightarrow> (None, env)
      | Some i \<Rightarrow>
          (let w = (if js_gt (index_prob probabilities i) (99 / 100)
                    then variant_name expVariantNames (variantKeys ! i)
                    else variant_name expVariantNames (variantKeys ! 0));
               updated = experiment\<lparr>status := Completed, winner := Some w,
                                      completedAt := Some now, updatedAt := now\<rparr>
           in (Some updated,
               env\<lparr>experiments := (experiments env)(exp_id experiment \<mapsto> updated)\<rparr>)))"

text \<open>
  Auto-ramp: the smallest schedule value strictly greater than the current traffic
  percentage, and the rule for a probability \<open>p\<close>.
\<close>

definition next_ramp_step :: "real \<Rightarrow> real option" where
  "next_ramp_step currentTraffic =
     (if {s \<in> set RAMP_SCHEDULE. currentTraffic < s} = {} then None
      else Some (Min {s \<in> set RAMP_SCHEDULE. currentTraffic < s}))"

definition ramp_rule ::
  "string \<Rightarrow> kv_store \<Rightarrow> Experiment \<Rightarrow> real \<Rightarrow> Experiment option \<times> kv_store" where
  "ramp_rule now env experiment p =
     (if p > 95 / 100 then
        (let hits = (case counters env (exp_id experiment) of None \<Rightarrow> 1 | Some n \<Rightarrow> n + 1) in
         if hits \<ge> 3 then
           (case next_ramp_step (trafficPercent experiment) of
              Some step \<Rightarrow>
                (let updated = experiment\<lparr>trafficPercent := step, updatedAt := now\<rparr>
                 in (Some updated,
                     env\<lparr>experiments := (experiments env)(exp_id experiment \<mapsto> updated),
                         counters := (counters env)(exp_id experiment \<mapsto> 0)\<rparr>))
            | None \<Rightarrow> (None, env\<lparr>counters := (counters env)(exp_id experiment \<mapsto> hits)\<rparr>))
         else (None, env\<lparr>counters := (counters env)(exp_id experiment \<mapsto> hits)\<rparr>))
      else (None, env\<lparr>counters := (counters env)(exp_id experiment \<mapsto> 0)\<rparr>))"

section \<open>Records and counts of the test suite (routes/results.test.ts)\<close>

definition test_experiment :: Experiment where
  "test_experiment =
     \<lparr>exp_id = ''aabbccddeeff'', name = ''Stop Test'', variants = [''control'', ''treatment''],
      trafficPercent = 100, status = Active, type = Some TExperiment, createdAt = [],
      updatedAt = [], winner = None, completedAt = None, minSamplesPerVariant = Some 100,
      autoStop = Some True\<rparr>"

definition test_flag :: Experiment where
  "test_flag =
     \<lparr>exp_id = ''f1a9f1a9f1a9'', name = ''Flag Test'', variants = [''off'', ''on''],
      trafficPercent = 10, status = Active, type = Some TFlag, createdAt = [],
      updatedAt = [], winner = None, completedAt = None, minSamplesPerVariant = None,
      autoStop = None\<rparr>"

definition test_store :: kv_store where
  "test_store =
     \<lparr>experiments = [''aabbccddeeff'' \<mapsto> test_experiment, ''f1a9f1a9f1a9'' \<mapsto> test_flag],
      counters = [''f1a9f1a9f1a9'' \<mapsto> 2]\<rparr>"

definition test_stats :: "int \<rightharpoonup> VariantStats" where
  "test_stats =
     [0 \<mapsto> \<lparr>impressions = 1000, stat_conversions = 10, totalRevenue = 0\<rparr>,
      1 \<mapsto> \<lparr>impressions = 1000, stat_conversions = 900, totalRevenue = 0\<rparr>]"

definition test_rows :: "AERow list" where
  "test_rows =
     [\<lparr>variant = 0, eventType = ''impression'', count = 1000\<rparr>,
      \<lparr>variant = 0, eventType = ''conversion'', count = 10\<rparr>,
      \<lparr>variant = 1, eventType = ''impression'', count = 1000\<rparr>,
      \<lparr>variant = 1, eventType = ''conversion'', count = 900\<rparr>]"

text \<open>
  A record with three variants of which only the first two have events, the same rows
  with one more row that gives the third variant no impressions, and a source of draws
  that always returns \<open>1 / 4\<close>: the cosine factor of \<open>sampleBeta\<close> is then 0 (in
  binary64, about \<open>6e-17\<close>), and every sample is the mean of its Beta distribution.
\<close>

definition three_variant_experiment :: Experiment where
  "three_variant_experiment =
     \<lparr>exp_id = ''aabbccddeeff'', name = ''Stop Test'', variants = [''control'', ''b'', ''c''],
      trafficPercent = 100, status = Active, type = Some TExperiment, createdAt = [],
      updatedAt = [], winner = None, completedAt = None, minSamplesPerVariant = Some 100,
      autoStop = Some True\<rparr>"

definition three_variant_store :: kv_store where
  "three_variant_store =
     \<lparr>experiments = [''aabbccddeeff'' \<mapsto> three_variant_experiment], counters = Map.empty\<rparr>"

definition rows_with_empty_third :: "AERow list" where
  "rows_with_empty_third = test_rows @ [\<lparr>variant = 2, eventType = ''impression'', count = 0\<rparr>]"

definition quarter_draws :: rng where
  "quarter_draws = (\<lambda>n. 1 / 4)"

section \<open>Properties of the bucketing function\<close>



lemma fnv1a_range: "0 \<le> fnv1a s \<and> fnv1a s < 1"
  by (simp add: fnv1a_def)

lemma hash_ab: "fnv1a (code_units ''a'' @ code_units ''b'') = 1946 / 10000"
  by (simp add: fnv1a_def code_units_def FNV_OFFSET_def FNV_PRIME_def)

lemma hash_v1e: "fnv1a (code_units ''v1'' @ code_units ''e'') = 6535 / 10000"
  by (simp add: fnv1a_def code_units_def FNV_OFFSET_def FNV_PRIME_def)

text \<open>
  C1. Ramp-stability of flag mode: a visitor that is on (\<open>bucket = 1\<close>) at a traffic
  percentage \<open>p1\<close> is on at every higher percentage \<open>p2\<close>, whatever the visitor key,
  the experiment key and the variant count.
\<close>

theorem bucket_flag_ramp_stable:
  assumes "bucket v e c p1 TFlag = 1" and "p1 < p2"
  shows "bucket v e c p2 TFlag = 1"
  using assms by (simp add: bucket_def Let_def split: if_splits)

theorem bucket_flag_ramp_stable_witness:
  "bucket (code_units ''a'') (code_units ''b'') 2 25 TFlag = 1 \<and> (25 :: real) < 50
   \<and> bucket (code_units ''a'') (code_units ''b'') 2 50 TFlag = 1"
proof -
  have on: "bucket (code_units ''a'') (code_units ''b'') 2 25 TFlag = 1"
    by (simp add: bucket_def hash_ab)
  have lt: "(25 :: real) < 50" by simp
  from bucket_flag_ramp_stable [OF on lt] on lt show ?thesis by simp
qed



text \<open>
  C9. Experiment mode with at least two variants: at 0 percent traffic every visitor is
  excluded (\<open>- 1\<close>), and at 100 percent none is: the result lies in \<open>[0, c - 1]\<close>.
\<close>

theorem bucket_experiment_boundaries:
  assumes "2 \<le> c"
  shows "bucket v e c 0 TExperiment = - 1
    \<and> bucket v e c 100 TExperiment \<noteq> - 1
    \<and> 0 \<le> bucket v e c 100 TExperiment
    \<and> bucket v e c 100 TExperiment \<le> c - 1"
proof -
  let ?n = "fnv1a (v @ e)"
  have n: "0 \<le> ?n" "?n < 1" using fnv1a_range [of "v @ e"] by simp_all
  have zero: "bucket v e c 0 TExperiment = - 1"
    using n by (simp add: bucket_def)
  have full: "bucket v e c 100 TExperiment = min \<lfloor>?n * real_of_int c\<rfloor> (c - 1)"
    using n by (simp add: bucket_def)
  have "0 \<le> ?n * real_of_int c" using n assms by simp
  then have fl: "0 \<le> \<lfloor>?n * real_of_int c\<rfloor>" by simp
  from fl assms have ge: "0 \<le> min \<lfloor>?n * real_of_int c\<rfloor> (c - 1)"
    by linarith
  have le: "min \<lfloor>?n * real_of_int c\<rfloor> (c - 1) \<le> c - 1"
    by linarith
  from ge le show ?thesis
    unfolding zero full by linarith
qed

theorem bucket_experiment_boundaries_witness:
  "(2 :: int) \<le> 2
   \<and> bucket (code_units ''v1'') (code_units ''e'') 2 0 TExperiment = - 1
   \<and> bucket (code_units ''v1'') (code_units ''e'') 2 100 TExperiment = 1"
proof -
  have c: "(2 :: int) \<le> 2" by simp
  have v: "bucket (code_units ''v1'') (code_units ''e'') 2 100 TExperiment = 1"
    by (simp add: bucket_def hash_v1e)
  from bucket_experiment_boundaries [OF c, of "code_units ''v1''" "code_units ''e''"] v
  show ?thesis by simp
qed

section \<open>Properties of the probability estimator\<close>

lemma snd_sampleBeta: "snd (sampleBeta rnd pos a b) = pos + 2"
  by (simp add: sampleBeta_def Let_def)

lemma sample_loop_counts:
  "i \<le> SAMPLES \<Longrightarrow>
   sample_loop rnd cc ct tc tt i wins (pos + 4 * i) =
     (wins + length (filter (draw_wins rnd pos cc ct tc tt) [i..<SAMPLES]), pos + 4 * SAMPLES)"
proof (induction "SAMPLES - i" arbitrary: i wins)
  case 0
  then have "i = SAMPLES" by simp
  then show ?case
    by (subst sample_loop.simps) simp
next
  case (Suc k)
  then have lt: "i < SAMPLES" and k: "k = SAMPLES - Suc i" and le: "Suc i \<le> SAMPLES"
    by simp_all
  have step: "sample_loop rnd cc ct tc tt i wins (pos + 4 * i) =
      sample_loop rnd cc ct tc tt (Suc i)
        (if draw_wins rnd pos cc ct tc tt i then wins + 1 else wins) (pos + 4 * Suc i)"
  proof -
    have e: "pos + (4 + 4 * i) = Suc (Suc (Suc (Suc (pos + 4 * i))))" by simp
    show ?thesis
      using lt
      by (subst sample_loop.simps)
         (simp add: draw_wins_def split_beta snd_sampleBeta add.commute add.left_commute e)
  qed
  show ?case
    unfolding step Suc.hyps(1) [OF k le]
    using lt by (simp add: upt_conv_Cons)
qed

lemma filter_upt_le: "length (filter P [0..<n]) \<le> n"
  using length_filter_le [of P "[0..<n]"] by simp

lemma bayesianProbability_eq:
  "bayesianProbability rnd pos c0 t0 c1 t1 =
     (real (length (filter (draw_wins rnd pos (max 0 (min c0 t0)) (max 0 t0)
                              (max 0 (min c1 t1)) (max 0 t1)) [0..<SAMPLES])) / real SAMPLES,
      pos + 4 * SAMPLES)"
  using sample_loop_counts [of 0 rnd "max 0 (min c0 t0)" "max 0 t0" "max 0 (min c1 t1)" "max 0 t1" 0 pos]
  by (simp add: bayesianProbability_def Let_def)

lemma snd_bayesianProbability:
  "snd (bayesianProbability rnd pos c0 t0 c1 t1) = pos + 4 * SAMPLES"
  by (simp add: bayesianProbability_eq)

lemma mvp_map_shape:
  "0 < i \<Longrightarrow>
   length (fst (mvp_map rnd c i vs pos)) = length vs
   \<and> snd (mvp_map rnd c i vs pos) = pos + 4 * SAMPLES * length vs"
proof (induction vs arbitrary: i pos)
  case Nil
  show ?case by simp
next
  case (Cons v vs)
  from Cons.prems have "0 < i + 1" by simp
  from Cons.IH [OF this] Cons.prems show ?case
    by (simp add: split_beta snd_bayesianProbability)
qed

lemma mvp_map_nth:
  "0 < i \<Longrightarrow> j < length vs \<Longrightarrow>
   fst (mvp_map rnd c i vs pos) ! j =
     Some (fst (bayesianProbability rnd (pos + 4 * SAMPLES * j)
                  (conversions c) (total c) (conversions (vs ! j)) (total (vs ! j))))"
proof (induction vs arbitrary: i pos j)
  case Nil
  then show ?case by simp
next
  case (Cons v vs)
  from Cons.prems have i1: "0 < i + 1" by simp
  show ?case
  proof (cases j)
    case 0
    with Cons.prems show ?thesis by (simp add: split_beta)
  next
    case (Suc k)
    with Cons.prems have k: "k < length vs" by simp
    from Cons.IH [OF i1 k, of "pos + 4 * SAMPLES"] Cons.prems Suc show ?thesis
      by (simp add: split_beta snd_bayesianProbability add.assoc)
  qed
qed

text \<open>
  C6. \<open>bayesianProbability\<close> has no failing path: it returns for all four inputs,
  negative counts and conversions above the total included. It replaces each conversions value by one in
  \<open>[0, total]\<close> and each total by one in \<open>[0, \<infinity>)\<close>, so that all four Beta parameters
  are at least 1, and returns the number of winning draws among the 10,000 pairs,
  divided by 10,000: a number in \<open>[0, 1]\<close>.
\<close>

theorem bayesianProbability_clamped_bounded:
  "(let cc = max 0 (min c0 t0); ct = max 0 t0;
        tc = max 0 (min c1 t1); tt = max 0 t1;
        wins = length (filter (draw_wins rnd pos cc ct tc tt) [0..<SAMPLES])
    in 0 \<le> cc \<and> cc \<le> ct \<and> 0 \<le> tc \<and> tc \<le> tt
       \<and> 1 \<le> cc + 1 \<and> 1 \<le> ct - cc + 1 \<and> 1 \<le> tc + 1 \<and> 1 \<le> tt - tc + 1
       \<and> wins \<le> 10000
       \<and> bayesianProbability rnd pos c0 t0 c1 t1 = (real wins / 10000, pos + 4 * SAMPLES))
   \<and> 0 \<le> fst (bayesianProbability rnd pos c0 t0 c1 t1)
   \<and> fst (bayesianProbability rnd pos c0 t0 c1 t1) \<le> 1"
proof -
  let ?W = "draw_wins rnd pos (max 0 (min c0 t0)) (max 0 t0) (max 0 (min c1 t1)) (max 0 t1)"
  have w: "length (filter ?W [0..<SAMPLES]) \<le> SAMPLES"
    by (rule filter_upt_le)
  have S: "SAMPLES = 10000" by (simp add: SAMPLES_def)
  have eq: "bayesianProbability rnd pos c0 t0 c1 t1 =
      (real (length (filter ?W [0..<SAMPLES])) / 10000, pos + 4 * SAMPLES)"
    using bayesianProbability_eq [of rnd pos c0 t0 c1 t1] by (simp add: S)
  have w': "length (filter ?W [0..<SAMPLES]) \<le> 10000"
    using w by (simp only: S)
  then have up: "real (length (filter ?W [0..<SAMPLES])) / 10000 \<le> 1"
    by simp
  have clamp: "0 \<le> max 0 (min c0 t0) \<and> max 0 (min c0 t0) \<le> max 0 t0
      \<and> 0 \<le> max 0 (min c1 t1) \<and> max 0 (min c1 t1) \<le> max 0 t1"
    by linarith
  from clamp w' up show ?thesis
    unfolding eq Let_def fst_conv by simp
qed

theorem bayesianProbability_clamped_bounded_witness:
  "0 \<le> fst (bayesianProbability (\<lambda>n. 1 / 2) 0 (- 5) 10 50 20)
   \<and> fst (bayesianProbability (\<lambda>n. 1 / 2) 0 (- 5) 10 50 20) \<le> 1
   \<and> snd (bayesianProbability (\<lambda>n. 1 / 2) 0 (- 5) 10 50 20) = 4 * SAMPLES
   \<and> max 0 (min (- 5) 10) = (0 :: real) \<and> max 0 (min 50 20) = (20 :: real)"
  using bayesianProbability_clamped_bounded [of "- 5" 10 50 20 "\<lambda>n. 1 / 2" 0]
  by (simp add: Let_def)

text \<open>
  C7. The output of \<open>multiVariantProbabilities\<close> has the length of its input; the empty
  input gives the empty output and a single variant gives \<open>[null]\<close>; index 0 holds null,
  and every index \<open>i \<ge> 1\<close> holds the result of \<open>bayesianProbability\<close> on the counts of
  variant 0 and of variant \<open>i\<close> (run on the draws that follow those of the earlier calls).
\<close>

theorem multiVariantProbabilities_shape:
  "length (fst (multiVariantProbabilities rnd pos vs)) = length vs
   \<and> fst (multiVariantProbabilities rnd pos []) = []
   \<and> fst (multiVariantProbabilities rnd pos [v]) = [None]
   \<and> (vs \<noteq> [] \<longrightarrow> fst (multiVariantProbabilities rnd pos vs) ! 0 = None)
   \<and> (1 \<le> i \<and> i < length vs \<longrightarrow>
        fst (multiVariantProbabilities rnd pos vs) ! i =
          Some (fst (bayesianProbability rnd (pos + 4 * SAMPLES * (i - 1))
                  (conversions (vs ! 0)) (total (vs ! 0))
                  (conversions (vs ! i)) (total (vs ! i)))))"
proof (cases vs)
  case Nil
  then show ?thesis
    by (simp add: multiVariantProbabilities_def split_beta)
next
  case (Cons c rest)
  have one: "(0 :: nat) < 0 + 1" by simp
  have out: "fst (multiVariantProbabilities rnd pos vs) = None # fst (mvp_map rnd c 1 rest pos)"
    using Cons by (simp add: multiVariantProbabilities_def split_beta)
  have len: "length (fst (mvp_map rnd c 1 rest pos)) = length rest"
    using mvp_map_shape [OF one, of rnd c rest pos] by simp
  have nth: "fst (mvp_map rnd c 1 rest pos) ! (i - 1) =
      Some (fst (bayesianProbability rnd (pos + 4 * SAMPLES * (i - 1))
              (conversions c) (total c) (conversions (rest ! (i - 1))) (total (rest ! (i - 1)))))"
    if "1 \<le> i" "i < length vs"
  proof -
    from that Cons have "i - 1 < length rest" by simp
    from mvp_map_nth [OF one this, of rnd c pos] show ?thesis by simp
  qed
  have single: "fst (multiVariantProbabilities rnd pos [v]) = [None]"
    by (simp add: multiVariantProbabilities_def split_beta)
  have empty: "fst (multiVariantProbabilities rnd pos []) = []"
    by (simp add: multiVariantProbabilities_def)
  from out len nth single empty Cons show ?thesis
    by (auto simp: nth_Cons')
qed

theorem multiVariantProbabilities_shape_witness:
  "length (fst (multiVariantProbabilities (\<lambda>n. 1 / 2) 0
      [\<lparr>conversions = 10, total = 100\<rparr>, \<lparr>conversions = 20, total = 100\<rparr>,
       \<lparr>conversions = 30, total = 100\<rparr>])) = 3
   \<and> fst (multiVariantProbabilities (\<lambda>n. 1 / 2) 0
      [\<lparr>conversions = 10, total = 100\<rparr>, \<lparr>conversions = 20, total = 100\<rparr>,
       \<lparr>conversions = 30, total = 100\<rparr>]) ! 0 = None
   \<and> fst (multiVariantProbabilities (\<lambda>n. 1 / 2) 0
      [\<lparr>conversions = 10, total = 100\<rparr>, \<lparr>conversions = 20, total = 100\<rparr>,
       \<lparr>conversions = 30, total = 100\<rparr>]) ! 2
       = Some (fst (bayesianProbability (\<lambda>n. 1 / 2) (4 * SAMPLES) 10 100 30 100))"
  using multiVariantProbabilities_shape [of "\<lambda>n. 1 / 2" 0
      "[\<lparr>conversions = 10, total = 100\<rparr>, \<lparr>conversions = 20, total = 100\<rparr>,
        \<lparr>conversions = 30, total = 100\<rparr>]" "\<lparr>conversions = 10, total = 100\<rparr>" 2]
  by simp

section \<open>Properties of the evaluators\<close>

lemma stop_loop_find:
  "stop_loop now env e keys ps names i =
     stop_decision now env e keys ps names (List.find (crosses ps) [i..<length keys])"
proof (induction "length keys - i" arbitrary: i)
  case 0
  then have "\<not> i < length keys" by simp
  then show ?case
    by (subst stop_loop.simps) (simp add: stop_decision_def)
next
  case (Suc k)
  then have lt: "i < length keys" and k: "k = length keys - Suc i"
    by simp_all
  have upt: "[i..<length keys] = i # [Suc i..<length keys]"
    using lt by (simp add: upt_conv_Cons)
  note IH = Suc.hyps(1) [OF k]
  show ?case
  proof (cases "crosses ps i")
    case True
    then obtain p where p: "index_prob ps i = Num p" and c: "p > 99 / 100 \<or> p < 1 / 100"
      by (auto simp: crosses_def split: js_prob.splits)
    show ?thesis
      using lt True p c
      by (subst stop_loop.simps)
         (auto simp: upt stop_decision_def put_experiment_def Let_def)
  next
    case False
    show ?thesis
    proof (cases "index_prob ps i")
      case Undefined
      with lt False show ?thesis
        by (subst stop_loop.simps) (simp add: upt IH Let_def)
    next
      case Null
      with lt False show ?thesis
        by (subst stop_loop.simps) (simp add: upt IH Let_def)
    next
      case (Num p)
      with False have "\<not> p > 99 / 100" "\<not> p < 1 / 100"
        by (simp_all add: crosses_def)
      with lt False Num show ?thesis
        by (subst stop_loop.simps) (simp add: upt IH Let_def)
    qed
  qed
qed

text \<open>
  C2. Once every variant has enough impressions, \<open>evaluateExperimentStop\<close> takes the
  first index \<open>i \<ge> 1\<close>, in ascending order, whose probability is a number above 0.99 or
  below 0.01. It stores and returns the record with status completed, completedAt and
  updatedAt set to the current time, and winner the name of variant \<open>i\<close> (above 0.99) or
  of the control (below 0.01). With no such index it returns no decision and leaves the
  store as it was.
\<close>

theorem evaluateExperimentStop_decision:
  assumes "every_min_samples stats
             (case minSamplesPerVariant e of None \<Rightarrow> 100 | Some m \<Rightarrow> m) keys = Inr True"
  shows "evaluateExperimentStop now env e keys stats ps names =
           Inr (stop_decision now env e keys ps names
                  (List.find (crosses ps) [1..<length keys]))"
  using assms by (simp add: evaluateExperimentStop_def stop_loop_find)


theorem evaluateExperimentStop_decision_witness:
  "every_min_samples test_stats
     (case minSamplesPerVariant test_experiment of None \<Rightarrow> 100 | Some m \<Rightarrow> m) [0, 1] = Inr True
   \<and> evaluateExperimentStop ''2026-01-01T00:00:00.000Z'' test_store test_experiment [0, 1]
         test_stats [None, Some (999 / 1000)] [''control'', ''treatment''] =
       Inr (Some (test_experiment\<lparr>status := Completed, winner := Some ''treatment'',
                    completedAt := Some ''2026-01-01T00:00:00.000Z'',
                    updatedAt := ''2026-01-01T00:00:00.000Z''\<rparr>),
            test_store\<lparr>experiments := (experiments test_store)(''aabbccddeeff'' \<mapsto>
              test_experiment\<lparr>status := Completed, winner := Some ''treatment'',
                    completedAt := Some ''2026-01-01T00:00:00.000Z'',
                    updatedAt := ''2026-01-01T00:00:00.000Z''\<rparr>)\<rparr>)
   \<and> evaluateExperimentStop ''2026-01-01T00:00:00.000Z'' test_store test_experiment [0, 1]
         test_stats [None, Some (1 / 1000)] [''control'', ''treatment''] =
       Inr (Some (test_experiment\<lparr>status := Completed, winner := Some ''control'',
                    completedAt := Some ''2026-01-01T00:00:00.000Z'',
                    updatedAt := ''2026-01-01T00:00:00.000Z''\<rparr>),
            test_store\<lparr>experiments := (experiments test_store)(''aabbccddeeff'' \<mapsto>
              test_experiment\<lparr>status := Completed, winner := Some ''control'',
                    completedAt := Some ''2026-01-01T00:00:00.000Z'',
                    updatedAt := ''2026-01-01T00:00:00.000Z''\<rparr>)\<rparr>)
   \<and> evaluateExperimentStop ''2026-01-01T00:00:00.000Z'' test_store test_experiment [0, 1]
         test_stats [None, Some (1 / 2)] [''control'', ''treatment''] = Inr (None, test_store)"
proof -
  have gate: "every_min_samples test_stats
     (case minSamplesPerVariant test_experiment of None \<Rightarrow> 100 | Some m \<Rightarrow> m) [0, 1] = Inr True"
    by (simp add: test_stats_def test_experiment_def)
  have first: "List.find (crosses [None, Some (999 / 1000)]) [1..<length [0 :: int, 1]] = Some 1"
    by (simp add: crosses_def index_prob_def upt_conv_Cons)
  have idt: "exp_id test_experiment = ''aabbccddeeff''"
    by (simp add: test_experiment_def)
  have res: "evaluateExperimentStop ''2026-01-01T00:00:00.000Z'' test_store test_experiment [0, 1]
         test_stats [None, Some (999 / 1000)] [''control'', ''treatment''] =
       Inr (stop_decision ''2026-01-01T00:00:00.000Z'' test_store test_experiment [0, 1]
              [None, Some (999 / 1000)] [''control'', ''treatment''] (Some 1))"
    using evaluateExperimentStop_decision [OF gate, of "''2026-01-01T00:00:00.000Z''" test_store
      "[None, Some (999 / 1000)]" "[''control'', ''treatment'']"]
    unfolding first .
  have dec: "stop_decision ''2026-01-01T00:00:00.000Z'' test_store test_experiment [0, 1]
              [None, Some (999 / 1000)] [''control'', ''treatment''] (Some 1) =
       (Some (test_experiment\<lparr>status := Completed, winner := Some ''treatment'',
                    completedAt := Some ''2026-01-01T00:00:00.000Z'',
                    updatedAt := ''2026-01-01T00:00:00.000Z''\<rparr>),
            test_store\<lparr>experiments := (experiments test_store)(''aabbccddeeff'' \<mapsto>
              test_experiment\<lparr>status := Completed, winner := Some ''treatment'',
                    completedAt := Some ''2026-01-01T00:00:00.000Z'',
                    updatedAt := ''2026-01-01T00:00:00.000Z''\<rparr>)\<rparr>)"
    by (simp add: stop_decision_def index_prob_def variant_name_def idt Let_def)
  have first': "List.find (crosses [None, Some (1 / 1000)]) [1..<length [0 :: int, 1]] = Some 1"
    by (simp add: crosses_def index_prob_def upt_conv_Cons)
  have res': "evaluateExperimentStop ''2026-01-01T00:00:00.000Z'' test_store test_experiment [0, 1]
         test_stats [None, Some (1 / 1000)] [''control'', ''treatment''] =
       Inr (stop_decision ''2026-01-01T00:00:00.000Z'' test_store test_experiment [0, 1]
              [None, Some (1 / 1000)] [''control'', ''treatment''] (Some 1))"
    using evaluateExperimentStop_decision [OF gate, of "''2026-01-01T00:00:00.000Z''" test_store
      "[None, Some (1 / 1000)]" "[''control'', ''treatment'']"]
    unfolding first' .
  have dec': "stop_decision ''2026-01-01T00:00:00.000Z'' test_store test_experiment [0, 1]
              [None, Some (1 / 1000)] [''control'', ''treatment''] (Some 1) =
       (Some (test_experiment\<lparr>status := Completed, winner := Some ''control'',
                    completedAt := Some ''2026-01-01T00:00:00.000Z'',
                    updatedAt := ''2026-01-01T00:00:00.000Z''\<rparr>),
            test_store\<lparr>experiments := (experiments test_store)(''aabbccddeeff'' \<mapsto>
              test_experiment\<lparr>status := Completed, winner := Some ''control'',
                    completedAt := Some ''2026-01-01T00:00:00.000Z'',
                    updatedAt := ''2026-01-01T00:00:00.000Z''\<rparr>)\<rparr>)"
    by (simp add: stop_decision_def index_prob_def variant_name_def idt Let_def)
  have none: "List.find (crosses [None, Some (1 / 2)]) [1..<length [0 :: int, 1]] = None"
    by (simp add: crosses_def index_prob_def upt_conv_Cons)
  have res0: "evaluateExperimentStop ''2026-01-01T00:00:00.000Z'' test_store test_experiment [0, 1]
         test_stats [None, Some (1 / 2)] [''control'', ''treatment''] = Inr (None, test_store)"
    using evaluateExperimentStop_decision [OF gate, of "''2026-01-01T00:00:00.000Z''" test_store
      "[None, Some (1 / 2)]" "[''control'', ''treatment'']"]
    unfolding none by (simp add: stop_decision_def)
  from gate res [unfolded dec] res' [unfolded dec'] res0 show ?thesis by (intro conjI)
qed

lemma every_min_samples_present:
  "set keys \<subseteq> dom stats \<Longrightarrow>
   every_min_samples stats m keys =
     Inr (list_all (\<lambda>k. case stats k of None \<Rightarrow> False | Some s \<Rightarrow> impressions s \<ge> m) keys)"
proof (induction keys)
  case Nil
  show ?case by simp
next
  case (Cons k keys)
  then obtain s where "stats k = Some s" by auto
  with Cons show ?case by simp
qed

text \<open>
  A variant that has a key in \<open>stats\<close> and fewer impressions than
  \<open>minSamplesPerVariant\<close> (100 when the record has none) blocks the decision, whatever
  the probabilities are.
\<close>

lemma keyed_variant_below_minimum_gated:
  assumes "set keys \<subseteq> dom stats"
    and "k \<in> set keys"
    and "stats k = Some s"
    and "impressions s < (case minSamplesPerVariant e of None \<Rightarrow> 100 | Some m \<Rightarrow> m)"
  shows "evaluateExperimentStop now env e keys stats ps names = Inr (None, env)"
proof -
  let ?m = "case minSamplesPerVariant e of None \<Rightarrow> 100 | Some m \<Rightarrow> m"
  have "\<not> (case stats k of None \<Rightarrow> False | Some s \<Rightarrow> impressions s \<ge> ?m)"
    using assms(3,4) by simp
  with assms(2)
  have "\<not> list_all (\<lambda>k. case stats k of None \<Rightarrow> False | Some s \<Rightarrow> impressions s \<ge> ?m) keys"
    unfolding list_all_iff by blast
  with every_min_samples_present [OF assms(1), of ?m]
  have "every_min_samples stats ?m keys = Inr False" by simp
  then show ?thesis
    by (simp add: evaluateExperimentStop_def)
qed

lemma sampleBeta_quarter:
  "sampleBeta quarter_draws pos a b = (max 0 (min 1 (a / (a + b))), pos + 2)"
proof -
  have "2 * pi * (1 / 4) = pi / 2" by simp
  then have "cos (2 * pi * (1 / 4)) = 0" by (simp only: cos_pi_half)
  then show ?thesis
    by (simp add: sampleBeta_def quarter_draws_def Let_def)
qed

lemma bayesianProbability_quarter:
  assumes "max 0 (min 1 ((max 0 (min c0 t0) + 1)
              / (max 0 (min c0 t0) + 1 + (max 0 t0 - max 0 (min c0 t0) + 1))))
         < max 0 (min 1 ((max 0 (min c1 t1) + 1)
              / (max 0 (min c1 t1) + 1 + (max 0 t1 - max 0 (min c1 t1) + 1))))"
  shows "bayesianProbability quarter_draws pos c0 t0 c1 t1 = (1, pos + 4 * SAMPLES)"
proof -
  let ?W = "draw_wins quarter_draws pos (max 0 (min c0 t0)) (max 0 t0) (max 0 (min c1 t1)) (max 0 t1)"
  have "?W j" for j
    using assms by (simp add: draw_wins_def sampleBeta_quarter)
  then have "filter ?W [0..<SAMPLES] = [0..<SAMPLES]"
    by simp
  then have "length (filter ?W [0..<SAMPLES]) = SAMPLES" by simp
  moreover have "real SAMPLES / real SAMPLES = 1" by (simp add: SAMPLES_def)
  ultimately show ?thesis
    by (simp add: bayesianProbability_eq)
qed

lemma probabilities_of_test_rows:
  "multiVariantProbabilities quarter_draws 0
     [\<lparr>conversions = 10, total = 1000\<rparr>, \<lparr>conversions = 900, total = 1000\<rparr>] =
   ([None, Some 1], 4 * SAMPLES)"
proof -
  have "bayesianProbability quarter_draws pos 10 1000 900 1000 = (1, pos + 4 * SAMPLES)" for pos
    by (rule bayesianProbability_quarter) simp
  then show ?thesis
    by (simp add: multiVariantProbabilities_def)
qed

lemma aggregate_test_rows:
  "aggregate_revenue [] (aggregate_rows test_rows []) =
   [(0, \<lparr>impressions = 1000, stat_conversions = 10, totalRevenue = 0\<rparr>),
    (1, \<lparr>impressions = 1000, stat_conversions = 900, totalRevenue = 0\<rparr>)]"
  by (simp add: test_rows_def empty_stats_def)

lemma aggregate_rows_with_empty_third:
  "aggregate_revenue [] (aggregate_rows rows_with_empty_third []) =
   [(0, \<lparr>impressions = 1000, stat_conversions = 10, totalRevenue = 0\<rparr>),
    (1, \<lparr>impressions = 1000, stat_conversions = 900, totalRevenue = 0\<rparr>),
    (2, \<lparr>impressions = 0, stat_conversions = 0, totalRevenue = 0\<rparr>)]"
  by (simp add: rows_with_empty_third_def test_rows_def empty_stats_def)

lemma three_variant_fields:
  "experiments three_variant_store ''aabbccddeeff'' = Some three_variant_experiment"
  "exp_id three_variant_experiment = ''aabbccddeeff''"
  "status three_variant_experiment = Active"
  "type three_variant_experiment = Some TExperiment"
  "autoStop three_variant_experiment = Some True"
  "variants three_variant_experiment = [''control'', ''b'', ''c'']"
  "winner three_variant_experiment = None"
  "completedAt three_variant_experiment = None"
  "minSamplesPerVariant three_variant_experiment = Some 100"
  by (simp_all add: three_variant_store_def three_variant_experiment_def)

lemma stop_two_of_three:
  "evaluateExperimentStop ''2026-01-01T00:00:00.000Z'' three_variant_store three_variant_experiment
     [0, 1]
     (map_of [(0, \<lparr>impressions = 1000, stat_conversions = 10, totalRevenue = 0\<rparr>),
              (1, \<lparr>impressions = 1000, stat_conversions = 900, totalRevenue = 0\<rparr>)])
     [None, Some 1] [''control'', ''b'', ''c''] =
   Inr (Some (three_variant_experiment\<lparr>status := Completed, winner := Some ''b'',
                completedAt := Some ''2026-01-01T00:00:00.000Z'',
                updatedAt := ''2026-01-01T00:00:00.000Z''\<rparr>),
        three_variant_store\<lparr>experiments := (experiments three_variant_store)(''aabbccddeeff'' \<mapsto>
          three_variant_experiment\<lparr>status := Completed, winner := Some ''b'',
                completedAt := Some ''2026-01-01T00:00:00.000Z'',
                updatedAt := ''2026-01-01T00:00:00.000Z''\<rparr>)\<rparr>)"
proof -
  have gate: "every_min_samples
      (map_of [(0, \<lparr>impressions = 1000, stat_conversions = 10, totalRevenue = 0\<rparr>),
               (1, \<lparr>impressions = 1000, stat_conversions = 900, totalRevenue = 0\<rparr>)])
      100 [0, 1] = Inr True"
    by simp
  have first: "List.find (crosses [None, Some 1]) [1..<length [0 :: int, 1]] = Some 1"
    by (simp add: crosses_def index_prob_def upt_conv_Cons)
  show ?thesis
    unfolding evaluateExperimentStop_def three_variant_fields(9) Let_def option.case gate
      sum.case stop_loop_find first
    by (simp add: stop_decision_def index_prob_def variant_name_def three_variant_fields(2) Let_def)
qed

text \<open>
  C4. The sample-size test of \<open>evaluateExperimentStop\<close> runs over the variants that have
  an aggregated row, not over the variants of the record. For a record with three
  variants and a minimum of 100, with rows for variants 0 and 1 only (1000 impressions
  each), the third variant has no impressions; yet \<open>evaluateExperimentStop\<close>, called as
  \<open>handleResults\<close> calls it, stores the record as completed with winner \<open>b\<close>, and so
  does \<open>handleResults\<close> from the rows. With one more row that gives the third variant
  0 impressions, the same evaluation returns no decision and the store as it was.
\<close>

theorem evaluateExperimentStop_skips_variant_without_rows:
  "evaluateExperimentStop ''2026-01-01T00:00:00.000Z'' three_variant_store three_variant_experiment
     [0, 1]
     (map_of [(0, \<lparr>impressions = 1000, stat_conversions = 10, totalRevenue = 0\<rparr>),
              (1, \<lparr>impressions = 1000, stat_conversions = 900, totalRevenue = 0\<rparr>)])
     [None, Some 1] [''control'', ''b'', ''c''] =
   Inr (Some (three_variant_experiment\<lparr>status := Completed, winner := Some ''b'',
                completedAt := Some ''2026-01-01T00:00:00.000Z'',
                updatedAt := ''2026-01-01T00:00:00.000Z''\<rparr>),
        three_variant_store\<lparr>experiments := (experiments three_variant_store)(''aabbccddeeff'' \<mapsto>
          three_variant_experiment\<lparr>status := Completed, winner := Some ''b'',
                completedAt := Some ''2026-01-01T00:00:00.000Z'',
                updatedAt := ''2026-01-01T00:00:00.000Z''\<rparr>)\<rparr>)
   \<and> handleResults quarter_draws 0 ''2026-01-01T00:00:00.000Z'' three_variant_store
       ''aabbccddeeff'' test_rows [] =
     Inr (\<lparr>response_status = Some Completed, response_winner = Some ''b'',
            response_completedAt = Some ''2026-01-01T00:00:00.000Z''\<rparr>,
          three_variant_store\<lparr>experiments := (experiments three_variant_store)(''aabbccddeeff'' \<mapsto>
            three_variant_experiment\<lparr>status := Completed, winner := Some ''b'',
                  completedAt := Some ''2026-01-01T00:00:00.000Z'',
                  updatedAt := ''2026-01-01T00:00:00.000Z''\<rparr>)\<rparr>,
          4 * SAMPLES)
   \<and> (\<exists>pos'. handleResults quarter_draws 0 ''2026-01-01T00:00:00.000Z'' three_variant_store
         ''aabbccddeeff'' rows_with_empty_third [] =
       Inr (\<lparr>response_status = Some Active, response_winner = None,
              response_completedAt = None\<rparr>,
            three_variant_store, pos'))"
proof -
  have full: "handleResults quarter_draws 0 ''2026-01-01T00:00:00.000Z'' three_variant_store
       ''aabbccddeeff'' test_rows [] =
     Inr (\<lparr>response_status = Some Completed, response_winner = Some ''b'',
            response_completedAt = Some ''2026-01-01T00:00:00.000Z''\<rparr>,
          three_variant_store\<lparr>experiments := (experiments three_variant_store)(''aabbccddeeff'' \<mapsto>
            three_variant_experiment\<lparr>status := Completed, winner := Some ''b'',
                  completedAt := Some ''2026-01-01T00:00:00.000Z'',
                  updatedAt := ''2026-01-01T00:00:00.000Z''\<rparr>)\<rparr>,
          4 * SAMPLES)"
    unfolding handleResults_def aggregate_test_rows
    by (simp add: three_variant_fields probabilities_of_test_rows stop_two_of_three
          response_of_def del: map_of.simps)
  have keyed: "evaluateExperimentStop ''2026-01-01T00:00:00.000Z'' three_variant_store
      three_variant_experiment [0, 1, 2]
      (map_of [(0, \<lparr>impressions = 1000, stat_conversions = 10, totalRevenue = 0\<rparr>),
               (1, \<lparr>impressions = 1000, stat_conversions = 900, totalRevenue = 0\<rparr>),
               (2, \<lparr>impressions = 0, stat_conversions = 0, totalRevenue = 0\<rparr>)])
      ps names = Inr (None, three_variant_store)" for ps names
    by (rule keyed_variant_below_minimum_gated [where k = 2
          and s = "\<lparr>impressions = 0, stat_conversions = 0, totalRevenue = 0\<rparr>"])
       (simp_all add: three_variant_fields)
  have gated: "\<exists>pos'. handleResults quarter_draws 0 ''2026-01-01T00:00:00.000Z'' three_variant_store
         ''aabbccddeeff'' rows_with_empty_third [] =
       Inr (\<lparr>response_status = Some Active, response_winner = None,
              response_completedAt = None\<rparr>,
            three_variant_store, pos')"
    unfolding handleResults_def aggregate_rows_with_empty_third
    by (simp add: three_variant_fields keyed response_of_def split_beta del: map_of.simps)
  from stop_two_of_three full gated show ?thesis by (intro conjI)
qed

lemma find_sorted_Min:
  "sorted xs \<Longrightarrow>
   List.find (\<lambda>s. (t :: real) < s) xs =
     (if {s \<in> set xs. t < s} = {} then None else Some (Min {s \<in> set xs. t < s}))"
proof (induction xs)
  case Nil
  show ?case by simp
next
  case (Cons x xs)
  show ?case
  proof (cases "t < x")
    case True
    have "Min {s \<in> set (x # xs). t < s} = x"
    proof (rule Min_eqI)
      show "finite {s \<in> set (x # xs). t < s}" by simp
      show "y \<ge> x" if "y \<in> {s \<in> set (x # xs). t < s}" for y
        using that Cons.prems by auto
      show "x \<in> {s \<in> set (x # xs). t < s}" using True by simp
    qed
    moreover have "{s \<in> set (x # xs). t < s} \<noteq> {}" using True by auto
    ultimately show ?thesis using True by simp
  next
    case False
    then have "{s \<in> set (x # xs). t < s} = {s \<in> set xs. t < s}" by auto
    with Cons False show ?thesis by simp
  qed
qed

lemma find_ramp_step:
  "List.find (\<lambda>step. step > t) RAMP_SCHEDULE = next_ramp_step t"
proof -
  have "sorted RAMP_SCHEDULE" by (simp add: RAMP_SCHEDULE_def)
  from find_sorted_Min [OF this, of t] show ?thesis
    by (simp add: next_ramp_step_def)
qed

text \<open>
  C3. With a probability \<open>p\<close> for the flag's "on" variant, \<open>evaluateFlagRamp\<close> follows the
  ramp rule: above 0.95 the stored counter is incremented (1 when absent); when the
  incremented counter is at least 3 and the schedule 10, 25, 50, 75, 100 has a value
  above the current trafficPercent, the smallest such value becomes the trafficPercent
  and the counter is reset to 0; when it has none, only the incremented counter is
  stored. At 0.95 or below the counter is set to 0 and the record is left as it was.
\<close>

theorem evaluateFlagRamp_rule:
  assumes "index_prob ps 1 = Num p"
  shows "evaluateFlagRamp now env e ps = ramp_rule now env e p"
  using assms
  by (simp add: evaluateFlagRamp_def ramp_rule_def find_ramp_step Let_def
        FLAG_RAMP_THRESHOLD_def FLAG_CONSECUTIVE_REQUIRED_def put_counter_def
        put_experiment_def
      split: option.splits)


theorem evaluateFlagRamp_rule_witness:
  "index_prob [None, Some (97 / 100)] 1 = Num (97 / 100)
   \<and> evaluateFlagRamp ''2026-01-01T00:00:00.000Z'' test_store test_flag [None, Some (97 / 100)] =
       (Some (test_flag\<lparr>trafficPercent := 25, updatedAt := ''2026-01-01T00:00:00.000Z''\<rparr>),
        test_store\<lparr>experiments := (experiments test_store)(''f1a9f1a9f1a9'' \<mapsto>
                      test_flag\<lparr>trafficPercent := 25, updatedAt := ''2026-01-01T00:00:00.000Z''\<rparr>),
                    counters := (counters test_store)(''f1a9f1a9f1a9'' \<mapsto> 0)\<rparr>)
   \<and> ramp_rule ''2026-01-01T00:00:00.000Z'' test_store test_flag (97 / 100) =
       (Some (test_flag\<lparr>trafficPercent := 25, updatedAt := ''2026-01-01T00:00:00.000Z''\<rparr>),
        test_store\<lparr>experiments := (experiments test_store)(''f1a9f1a9f1a9'' \<mapsto>
                      test_flag\<lparr>trafficPercent := 25, updatedAt := ''2026-01-01T00:00:00.000Z''\<rparr>),
                    counters := (counters test_store)(''f1a9f1a9f1a9'' \<mapsto> 0)\<rparr>)
   \<and> evaluateFlagRamp ''2026-01-01T00:00:00.000Z'' test_store test_flag [None, Some (95 / 100)] =
       (None, test_store\<lparr>counters := (counters test_store)(''f1a9f1a9f1a9'' \<mapsto> 0)\<rparr>)"
proof -
  have h: "index_prob [None, Some (97 / 100)] 1 = Num (97 / 100)"
    by (simp add: index_prob_def)
  have ev: "evaluateFlagRamp ''2026-01-01T00:00:00.000Z'' test_store test_flag [None, Some (97 / 100)] =
       (Some (test_flag\<lparr>trafficPercent := 25, updatedAt := ''2026-01-01T00:00:00.000Z''\<rparr>),
        test_store\<lparr>experiments := (experiments test_store)(''f1a9f1a9f1a9'' \<mapsto>
                      test_flag\<lparr>trafficPercent := 25, updatedAt := ''2026-01-01T00:00:00.000Z''\<rparr>),
                    counters := (counters test_store)(''f1a9f1a9f1a9'' \<mapsto> 0)\<rparr>)"
    by (simp add: evaluateFlagRamp_def index_prob_def Let_def FLAG_RAMP_THRESHOLD_def
          FLAG_CONSECUTIVE_REQUIRED_def RAMP_SCHEDULE_def put_counter_def put_experiment_def
          test_flag_def test_store_def)
  note rule = evaluateFlagRamp_rule [OF h, of "''2026-01-01T00:00:00.000Z''" test_store test_flag]
  have h': "index_prob [None, Some (95 / 100)] 1 = Num (95 / 100)"
    by (simp add: index_prob_def)
  have idt: "exp_id test_flag = ''f1a9f1a9f1a9''"
    by (simp add: test_flag_def)
  have low: "evaluateFlagRamp ''2026-01-01T00:00:00.000Z'' test_store test_flag [None, Some (95 / 100)] =
       (None, test_store\<lparr>counters := (counters test_store)(''f1a9f1a9f1a9'' \<mapsto> 0)\<rparr>)"
    using evaluateFlagRamp_rule [OF h', of "''2026-01-01T00:00:00.000Z''" test_store test_flag]
    by (simp add: ramp_rule_def idt)
  from h ev trans [OF rule [symmetric] ev] low show ?thesis by (intro conjI)
qed

text \<open>
  C10. When the probabilities array has fewer than two entries, \<open>probabilities[1]\<close> is
  undefined, not null: \<open>evaluateFlagRamp\<close> does not return early, takes the branch of a
  probability not above the threshold, writes 0 to the flag's counter, and returns no
  decision; the stored experiment records are as before.
\<close>

theorem evaluateFlagRamp_short_probabilities:
  assumes "length ps < 2"
  shows "index_prob ps 1 = Undefined
    \<and> index_prob ps 1 \<noteq> Null
    \<and> evaluateFlagRamp now env e ps = (None, env\<lparr>counters := (counters env)(exp_id e \<mapsto> 0)\<rparr>)
    \<and> experiments (snd (evaluateFlagRamp now env e ps)) = experiments env"
proof -
  from assms have u: "index_prob ps 1 = Undefined"
    by (simp add: index_prob_def)
  then show ?thesis
    by (simp add: evaluateFlagRamp_def put_counter_def)
qed

theorem evaluateFlagRamp_short_probabilities_witness:
  "length [None :: real option] < 2
   \<and> index_prob [None] 1 = Undefined
   \<and> evaluateFlagRamp ''2026-01-01T00:00:00.000Z'' test_store test_flag [None] =
       (None, test_store\<lparr>counters := (counters test_store)(exp_id test_flag \<mapsto> 0)\<rparr>)
   \<and> evaluateFlagRamp ''2026-01-01T00:00:00.000Z'' test_store test_flag [] =
       (None, test_store\<lparr>counters := (counters test_store)(exp_id test_flag \<mapsto> 0)\<rparr>)"
proof -
  have one: "length [None :: real option] < 2" by simp
  have none: "length ([] :: real option list) < 2" by simp
  from evaluateFlagRamp_short_probabilities [OF one, of "''2026-01-01T00:00:00.000Z''" test_store test_flag]
    evaluateFlagRamp_short_probabilities [OF none, of "''2026-01-01T00:00:00.000Z''" test_store test_flag]
    one
  show ?thesis by blast
qed

text \<open>
  C5. For a stored record whose status is not active, a results evaluation calls
  neither evaluator: it returns the store it was given, records and counters alike, and
  answers with the record's own status, winner and completedAt.
\<close>

theorem handleResults_inactive_noop:
  assumes "experiments env experimentId = Some e"
    and "status e \<noteq> Active"
  shows "\<exists>pos'. handleResults rnd pos now env experimentId rows revenueRows =
           Inr (\<lparr>response_status = Some (status e), response_winner = winner e,
                  response_completedAt = completedAt e\<rparr>, env, pos')"
  using assms
  by (simp add: handleResults_def Let_def split_beta response_of_def)

theorem handleResults_inactive_noop_witness:
  "experiments (test_store\<lparr>experiments := (experiments test_store)(''aabbccddeeff'' \<mapsto>
        test_experiment\<lparr>status := Completed, winner := Some ''treatment''\<rparr>)\<rparr>) ''aabbccddeeff''
     = Some (test_experiment\<lparr>status := Completed, winner := Some ''treatment''\<rparr>)
   \<and> status (test_experiment\<lparr>status := Completed, winner := Some ''treatment''\<rparr>) \<noteq> Active
   \<and> (\<exists>pos'. handleResults (\<lambda>n. 1 / 2) 0 ''2026-01-01T00:00:00.000Z''
        (test_store\<lparr>experiments := (experiments test_store)(''aabbccddeeff'' \<mapsto>
           test_experiment\<lparr>status := Completed, winner := Some ''treatment''\<rparr>)\<rparr>)
        ''aabbccddeeff'' test_rows [] =
       Inr (\<lparr>response_status = Some Completed, response_winner = Some ''treatment'',
              response_completedAt = None\<rparr>,
            test_store\<lparr>experiments := (experiments test_store)(''aabbccddeeff'' \<mapsto>
              test_experiment\<lparr>status := Completed, winner := Some ''treatment''\<rparr>)\<rparr>, pos'))"
proof -
  let ?e = "test_experiment\<lparr>status := Completed, winner := Some ''treatment''\<rparr>"
  let ?env = "test_store\<lparr>experiments := (experiments test_store)(''aabbccddeeff'' \<mapsto> ?e)\<rparr>"
  have a: "experiments ?env ''aabbccddeeff'' = Some ?e" by simp
  have b: "status ?e \<noteq> Active" by simp
  have c: "status ?e = Completed" "winner ?e = Some ''treatment''" "completedAt ?e = None"
    by (simp_all add: test_experiment_def)
  from handleResults_inactive_noop [OF a b, of "\<lambda>n. 1 / 2" 0 "''2026-01-01T00:00:00.000Z''"
      test_rows "[]"] a b
  show ?thesis unfolding c by blast
qed

end
